theory Spec2Isabelle
  imports Complex_Main
begin

section \<open>The particle-system engine (engine.py)\<close>

text \<open>
  A shallow embedding of \<^verbatim>\<open>engine.py\<close>. The numbers of a state and of a configuration
  are finite and are kept as reals, and arithmetic on them is exact, with one exception:
  line 151, \<^verbatim>\<open>u_tot / self._cfg.u_max * self._cfg.a_max\<close>, is carried out in
  binary64 as numpy does. Its division is the one division of a step that no mask guards,
  so that a zero divisor gives an infinity or NaN, which go through the rest of the
  particle step as IEEE values; and its two operations are rounded, since the order in
  which they are carried out is what one of the statements below is about. Overflow and
  subnormal numbers are outside this development. A two-dimensional numpy array is its
  shape together with its elements, read by row and column; the element function is only
  looked at inside the shape. The numpy and scipy primitives are taken at their meaning on
  arrays whose shapes fit together; their own shape errors, and the domain errors of
  \<^verbatim>\<open>math.pow\<close>, are not branches of this development. The six arrays of a state are
  six values: a state whose fields share one array object is outside it.
\<close>

subsection \<open>Data model\<close>

record ndarray =
  shape :: "nat \<times> nat"
  elem :: "nat \<Rightarrow> nat \<Rightarrow> real"

text \<open>class State: particles (p, v, a) and predators (pred_p, pred_v, pred_a).\<close>

record State =
  st_p :: ndarray
  st_v :: ndarray
  st_a :: ndarray
  pred_p :: ndarray
  pred_v :: ndarray
  pred_a :: ndarray

text \<open>class Config.\<close>

record Config =
  v_max :: real
  v_decay :: real
  a_max :: real
  d_max :: real
  u_max :: real
  u1_p :: real
  u2_p :: real
  u2_dopt :: real
  u3_p :: real
  u3_dmax :: real
  uw :: ndarray

text \<open>
  class EngineRunResult. An urgency snapshot is the array of shape (3, n, d), kept as the
  list of its three (n, d) layers; an entry of the list of snapshots is whatever the
  particle step returned.
\<close>

type_synonym urgency_field = "ndarray list"

record EngineRunResult =
  states :: "State list"
  urgencies :: "urgency_field option list option"

text \<open>class Engine: the state and the configuration it owns.\<close>

record Engine =
  engine_state :: State
  engine_cfg :: Config

text \<open>The only exception the source raises itself: ValueError with the four shapes.\<close>

datatype error =
  ValueError "nat \<times> nat" "nat \<times> nat" "nat \<times> nat" "nat \<times> nat"

subsection \<open>External collaborators\<close>

text \<open>
  Modelled from the spec: \<^verbatim>\<open>Randomizer.gen_epsilon_matrix\<close> is not part of the sources.
  The spec describes it as returning, for a shape, an array of multiplicative factors.
  The five matrices drawn in one iteration are a parameter of the step: one for each
  urgency, one for the particle acceleration and one for the predator acceleration.
\<close>

record draws =
  eps_u1 :: "nat \<Rightarrow> nat \<Rightarrow> real"
  eps_u2 :: "nat \<Rightarrow> nat \<Rightarrow> real"
  eps_u3 :: "nat \<Rightarrow> nat \<Rightarrow> real"
  eps_a :: "nat \<Rightarrow> nat \<Rightarrow> real"
  eps_pred :: "nat \<Rightarrow> nat \<Rightarrow> real"

definition gen_epsilon_matrix :: "(nat \<Rightarrow> nat \<Rightarrow> real) \<Rightarrow> nat \<times> nat \<Rightarrow> ndarray" where
  "gen_epsilon_matrix eps sh = \<lparr>shape = sh, elem = eps\<rparr>"

text \<open>The noise source that returns the factor 1.0 everywhere.\<close>

definition identity_draws :: draws where
  "identity_draws =
     \<lparr>eps_u1 = (\<lambda>i k. 1), eps_u2 = (\<lambda>i k. 1), eps_u3 = (\<lambda>i k. 1),
      eps_a = (\<lambda>i k. 1), eps_pred = (\<lambda>i k. 1)\<rparr>"

text \<open>
  The values of IEEE arithmetic: a finite number, the two infinities, and NaN. An array of
  such values is kept like an array of numbers.
\<close>

datatype ieee = Finite (the_finite: real) | PlusInf | MinusInf | NaN

record ieee_array =
  ishape :: "nat \<times> nat"
  ielem :: "nat \<Rightarrow> nat \<Rightarrow> ieee"

text \<open>
  Rounding to binary64: 53 significant bits, to the nearest, ties to the even significand.
  A number that is not zero lies in one binade, from a power of two up to the next; its
  unit in the last place is that power of two scaled down by 52 bits, and the number is
  rounded to a multiple of that unit. The exponent is not bounded.
\<close>

definition round_half_even :: "real \<Rightarrow> int" where
  "round_half_even y =
     (let f = \<lfloor>y\<rfloor>
      in if y - of_int f < 1 / 2 then f
         else if 1 / 2 < y - of_int f then f + 1
         else if even f then f else f + 1)"

definition round_binary64 :: "real \<Rightarrow> real" where
  "round_binary64 x =
     (if x = 0 then 0
      else let ulp = 2 powi (\<lfloor>log 2 \<bar>x\<bar>\<rfloor> - 52)
           in sgn x * of_int (round_half_even (\<bar>x\<bar> / ulp)) * ulp)"

text \<open>
  The two operations of line 151 in binary64. The quotient of two finite numbers, of which
  the divisor may be zero (a zero is taken as +0.0): zero by zero is NaN, another number by
  zero is the infinity of its sign. The product of an IEEE value and a finite number: an
  infinity times zero is NaN.
\<close>

definition binary64_divide :: "real \<Rightarrow> real \<Rightarrow> ieee" where
  "binary64_divide x c =
     (if c \<noteq> 0 then Finite (round_binary64 (x / c))
      else if x = 0 then NaN
      else if 0 < x then PlusInf
      else MinusInf)"

definition binary64_multiply :: "ieee \<Rightarrow> real \<Rightarrow> ieee" where
  "binary64_multiply y c =
     (case y of
        Finite r \<Rightarrow> Finite (round_binary64 (r * c))
      | PlusInf \<Rightarrow> (if c = 0 then NaN else if 0 < c then PlusInf else MinusInf)
      | MinusInf \<Rightarrow> (if c = 0 then NaN else if 0 < c then MinusInf else PlusInf)
      | NaN \<Rightarrow> NaN)"

text \<open>
  The other operations of the particle step, exact on finite numbers: the product of an
  IEEE value and a finite number, and the sum of a finite number and an IEEE value.
\<close>

definition ieee_multiply :: "ieee \<Rightarrow> real \<Rightarrow> ieee" where
  "ieee_multiply y c =
     (case y of
        Finite r \<Rightarrow> Finite (r * c)
      | PlusInf \<Rightarrow> (if c = 0 then NaN else if 0 < c then PlusInf else MinusInf)
      | MinusInf \<Rightarrow> (if c = 0 then NaN else if 0 < c then MinusInf else PlusInf)
      | NaN \<Rightarrow> NaN)"

definition ieee_add :: "real \<Rightarrow> ieee \<Rightarrow> ieee" where
  "ieee_add x y =
     (case y of
        Finite r \<Rightarrow> Finite (x + r)
      | PlusInf \<Rightarrow> PlusInf
      | MinusInf \<Rightarrow> MinusInf
      | NaN \<Rightarrow> NaN)"

text \<open>
  Modelled from the spec: \<^verbatim>\<open>Utils.inplace_clip_by_abs\<close> is not part of the sources.
  The spec: given an array and a scalar bound, clamps every element to [-bound, +bound].
  A finite element is clamped from below and then from above; an infinity is clamped like
  a number beyond every bound; NaN is no number and stays NaN, as under numpy's
  \<^verbatim>\<open>clip\<close>.
\<close>

definition clip_by_abs :: "ieee \<Rightarrow> real \<Rightarrow> ieee" where
  "clip_by_abs y bound =
     (case y of
        Finite r \<Rightarrow> Finite (min bound (max (- bound) r))
      | PlusInf \<Rightarrow> Finite bound
      | MinusInf \<Rightarrow> Finite (min bound (- bound))
      | NaN \<Rightarrow> NaN)"

definition inplace_clip_by_abs :: "ieee_array \<Rightarrow> real \<Rightarrow> ieee_array" where
  "inplace_clip_by_abs A bound = A\<lparr>ielem := (\<lambda>i k. clip_by_abs (ielem A i k) bound)\<rparr>"

text \<open>
  scipy.spatial.distance: the Euclidean distance of two rows; \<^verbatim>\<open>squareform(pdist(X))\<close>
  is the symmetric matrix of the pairwise distances of the rows of X with a zero diagonal,
  \<^verbatim>\<open>cdist(XA, XB)\<close> the matrix of the distances from the rows of XA to the rows of XB.
\<close>

definition euclidean :: "nat \<Rightarrow> (nat \<Rightarrow> real) \<Rightarrow> (nat \<Rightarrow> real) \<Rightarrow> real" where
  "euclidean d x y = sqrt (\<Sum>k<d. (x k - y k)\<^sup>2)"

definition squareform_pdist :: "ndarray \<Rightarrow> nat \<Rightarrow> nat \<Rightarrow> real" where
  "squareform_pdist X i j =
     (if i = j then 0 else euclidean (snd (shape X)) (elem X i) (elem X j))"

definition cdist :: "ndarray \<Rightarrow> ndarray \<Rightarrow> nat \<Rightarrow> nat \<Rightarrow> real" where
  "cdist XA XB i j = euclidean (snd (shape XA)) (elem XA i) (elem XB j)"

text \<open>Element-wise arithmetic of numpy on arrays of one shape.\<close>

definition arr_add :: "ndarray \<Rightarrow> ndarray \<Rightarrow> ndarray" where
  "arr_add A B = \<lparr>shape = shape A, elem = (\<lambda>i k. elem A i k + elem B i k)\<rparr>"

definition arr_mul :: "ndarray \<Rightarrow> ndarray \<Rightarrow> ndarray" where
  "arr_mul A B = \<lparr>shape = shape A, elem = (\<lambda>i k. elem A i k * elem B i k)\<rparr>"

definition arr_scale :: "ndarray \<Rightarrow> real \<Rightarrow> ndarray" where
  "arr_scale A c = \<lparr>shape = shape A, elem = (\<lambda>i k. elem A i k * c)\<rparr>"

text \<open>
  Line 151 on an array: \<^verbatim>\<open>A / c * d\<close>, element by element, in binary64.
\<close>

definition rescale :: "ndarray \<Rightarrow> real \<Rightarrow> real \<Rightarrow> ieee_array" where
  "rescale A c d =
     \<lparr>ishape = shape A,
      ielem = (\<lambda>i k. binary64_multiply (binary64_divide (elem A i k) c) d)\<rparr>"

text \<open>
  The other operations on arrays of IEEE values: multiplied by a scalar or, element by
  element, by an array of numbers, and added to an array of numbers.
\<close>

definition ieee_scale :: "ieee_array \<Rightarrow> real \<Rightarrow> ieee_array" where
  "ieee_scale A c = \<lparr>ishape = ishape A, ielem = (\<lambda>i k. ieee_multiply (ielem A i k) c)\<rparr>"

definition ieee_mul :: "ieee_array \<Rightarrow> ndarray \<Rightarrow> ieee_array" where
  "ieee_mul A B =
     \<lparr>ishape = ishape A, ielem = (\<lambda>i k. ieee_multiply (ielem A i k) (elem B i k))\<rparr>"

definition add_ieee :: "ndarray \<Rightarrow> ieee_array \<Rightarrow> ieee_array" where
  "add_ieee A B = \<lparr>ishape = shape A, ielem = (\<lambda>i k. ieee_add (elem A i k) (ielem B i k))\<rparr>"

text \<open>
  A state holds numbers. The array of numbers that an array of IEEE values stands for has
  the finite value of every finite element; where an element is an infinity or NaN the
  state has no number for it, and nothing is said about that element.
\<close>

definition finite_part :: "ieee_array \<Rightarrow> ndarray" where
  "finite_part A = \<lparr>shape = ishape A, elem = (\<lambda>i k. the_finite (ielem A i k))\<rparr>"

definition zeros :: "nat \<times> nat \<Rightarrow> ndarray" where
  "zeros sh = \<lparr>shape = sh, elem = (\<lambda>i k. 0)\<rparr>"

subsection \<open>Engine.__init__\<close>

definition Engine_init :: "State \<Rightarrow> Config \<Rightarrow> error + Engine" where
  "Engine_init st cfg =
     (if shape (st_p st) \<noteq> shape (st_v st)
         \<or> shape (st_p st) \<noteq> shape (st_a st)
         \<or> shape (uw cfg) \<noteq> (fst (shape (st_p st)), 3)
      then Inl (ValueError (shape (st_p st)) (shape (st_v st)) (shape (st_a st)) (shape (uw cfg)))
      else Inr \<lparr>engine_state = st, engine_cfg = cfg\<rparr>)"

subsection \<open>The three urgencies\<close>

text \<open>
  \<^verbatim>\<open>_calculate_urgency1\<close>. The mask, the count of each row of the mask, the weights
  (zero where the mask is off: \<^verbatim>\<open>np.divide\<close> writes only where the mask is on), the
  baricenters \<^verbatim>\<open>weights @ p\<close>, and the returned urgency.
\<close>

definition in_range1 :: "Config \<Rightarrow> (nat \<Rightarrow> nat \<Rightarrow> real) \<Rightarrow> nat \<Rightarrow> nat \<Rightarrow> bool" where
  "in_range1 cfg distances i j \<longleftrightarrow> distances i j > 0 \<and> distances i j \<le> d_max cfg"

definition count_nonzero :: "nat \<Rightarrow> (nat \<Rightarrow> nat \<Rightarrow> bool) \<Rightarrow> nat \<Rightarrow> nat" where
  "count_nonzero n msk i = length (filter (msk i) [0..<n])"

definition weights1 :: "nat \<Rightarrow> Config \<Rightarrow> (nat \<Rightarrow> nat \<Rightarrow> real) \<Rightarrow> nat \<Rightarrow> nat \<Rightarrow> real" where
  "weights1 n cfg distances i j =
     (if in_range1 cfg distances i j
      then 1 / real (count_nonzero n (in_range1 cfg distances) i)
      else 0)"

definition baricenters :: "State \<Rightarrow> Config \<Rightarrow> (nat \<Rightarrow> nat \<Rightarrow> real) \<Rightarrow> nat \<Rightarrow> nat \<Rightarrow> real" where
  "baricenters st cfg distances i k =
     (\<Sum>j<fst (shape (st_p st)). weights1 (fst (shape (st_p st))) cfg distances i j * elem (st_p st) j k)"

definition calculate_urgency1 ::
  "State \<Rightarrow> Config \<Rightarrow> (nat \<Rightarrow> nat \<Rightarrow> real) \<Rightarrow> (nat \<Rightarrow> nat \<Rightarrow> real) \<Rightarrow> ndarray" where
  "calculate_urgency1 st cfg distances eps =
     \<lparr>shape = shape (st_p st),
      elem = (\<lambda>i k. (baricenters st cfg distances i k - elem (st_p st) i k)
                     * elem (gen_epsilon_matrix eps (shape (st_p st))) i k
                     * u1_p cfg * elem (uw cfg) i 0)\<rparr>"

text \<open>\<^verbatim>\<open>_calculate_urgency2\<close>.\<close>

definition in_range2 :: "Config \<Rightarrow> (nat \<Rightarrow> nat \<Rightarrow> real) \<Rightarrow> nat \<Rightarrow> nat \<Rightarrow> bool" where
  "in_range2 cfg distances i j \<longleftrightarrow> distances i j > 0 \<and> distances i j \<le> u2_dopt cfg"

definition weights2 :: "Config \<Rightarrow> (nat \<Rightarrow> nat \<Rightarrow> real) \<Rightarrow> nat \<Rightarrow> nat \<Rightarrow> real" where
  "weights2 cfg distances i j =
     (if in_range2 cfg distances i j
      then (u2_dopt cfg - distances i j) / (u2_dopt cfg * distances i j)
      else 0)"

definition calculate_urgency2 ::
  "State \<Rightarrow> Config \<Rightarrow> (nat \<Rightarrow> nat \<Rightarrow> real) \<Rightarrow> (nat \<Rightarrow> nat \<Rightarrow> real) \<Rightarrow> ndarray" where
  "calculate_urgency2 st cfg distances eps =
     \<lparr>shape = shape (st_p st),
      elem = (\<lambda>i k. (\<Sum>j<fst (shape (st_p st)).
                        weights2 cfg distances i j * (elem (st_p st) i k - elem (st_p st) j k))
                     * elem (gen_epsilon_matrix eps (shape (st_p st))) i k
                     * u2_p cfg * elem (uw cfg) i 1)\<rparr>"

text \<open>\<^verbatim>\<open>_calculate_urgency3\<close>: the distances are those from the particles to the predators.\<close>

definition distances_from_predators :: "State \<Rightarrow> nat \<Rightarrow> nat \<Rightarrow> real" where
  "distances_from_predators st = cdist (st_p st) (pred_p st)"

definition in_range3 :: "State \<Rightarrow> Config \<Rightarrow> nat \<Rightarrow> nat \<Rightarrow> bool" where
  "in_range3 st cfg i j \<longleftrightarrow>
     distances_from_predators st i j > 0 \<and> distances_from_predators st i j \<le> u3_dmax cfg"

definition weights3 :: "State \<Rightarrow> Config \<Rightarrow> nat \<Rightarrow> nat \<Rightarrow> real" where
  "weights3 st cfg i j =
     (if in_range3 st cfg i j
      then (u3_dmax cfg - distances_from_predators st i j)
           / (u3_dmax cfg * distances_from_predators st i j)
      else 0)"

definition calculate_urgency3 :: "State \<Rightarrow> Config \<Rightarrow> (nat \<Rightarrow> nat \<Rightarrow> real) \<Rightarrow> ndarray" where
  "calculate_urgency3 st cfg eps =
     \<lparr>shape = shape (st_p st),
      elem = (\<lambda>i k. (\<Sum>j<fst (shape (pred_p st)).
                        weights3 st cfg i j * (elem (st_p st) i k - elem (pred_p st) j k))
                     * elem (gen_epsilon_matrix eps (shape (st_p st))) i k
                     * u3_p cfg * elem (uw cfg) i 2)\<rparr>"

subsection \<open>The particle step and the predator step\<close>

text \<open>
  \<^verbatim>\<open>_step_particles\<close>, in parts. First the three urgencies, from the pairwise
  distances of the particles.
\<close>

definition urgency_fields :: "State \<Rightarrow> Config \<Rightarrow> draws \<Rightarrow> urgency_field" where
  "urgency_fields st cfg dr =
     (let distances = squareform_pdist (st_p st);
          u1 = calculate_urgency1 st cfg distances (eps_u1 dr);
          u2 = calculate_urgency2 st cfg distances (eps_u2 dr);
          u3 = calculate_urgency3 st cfg (eps_u3 dr)
      in [u1, u2, u3])"

text \<open>
  Then the acceleration before the noise is applied: the total urgency, rescaled by
  \<^verbatim>\<open>/ u_max * a_max\<close> and clipped to \<^verbatim>\<open>a_max\<close>.
\<close>

definition clipped_acceleration :: "State \<Rightarrow> Config \<Rightarrow> draws \<Rightarrow> ieee_array" where
  "clipped_acceleration st cfg dr =
     (let us = urgency_fields st cfg dr;
          u_tot = arr_add (arr_add (us ! 0) (us ! 1)) (us ! 2)
      in inplace_clip_by_abs (rescale u_tot (u_max cfg) (a_max cfg)) (a_max cfg))"

text \<open>The acceleration after the noise: \<^verbatim>\<open>a *= gen_epsilon_matrix(a.shape)\<close>.\<close>

definition noisy_acceleration :: "State \<Rightarrow> Config \<Rightarrow> draws \<Rightarrow> ieee_array" where
  "noisy_acceleration st cfg dr =
     (let a1 = clipped_acceleration st cfg dr
      in ieee_mul a1 (gen_epsilon_matrix (eps_a dr) (ishape a1)))"

text \<open>
  The velocity: decay, integration of the acceleration, clipping to \<^verbatim>\<open>v_max\<close>.
  \<^verbatim>\<open>math.pow\<close> is the real power \<open>powr\<close>, its meaning on a positive base.
\<close>

definition clipped_velocity :: "real \<Rightarrow> State \<Rightarrow> Config \<Rightarrow> draws \<Rightarrow> ieee_array" where
  "clipped_velocity timestep st cfg dr =
     (let v1 = arr_scale (st_v st) (v_decay cfg powr timestep);
          v2 = add_ieee v1 (ieee_scale (noisy_acceleration st cfg dr) timestep)
      in inplace_clip_by_abs v2 (v_max cfg))"

text \<open>
  Last the position, and the new state. The step returns the new state and the urgencies,
  or None when they are not asked for.
\<close>

definition step_particles ::
  "real \<Rightarrow> bool \<Rightarrow> State \<Rightarrow> Config \<Rightarrow> draws \<Rightarrow> State \<times> urgency_field option" where
  "step_particles timestep return_urgency_vectors st cfg dr =
     (let a2 = noisy_acceleration st cfg dr;
          v3 = clipped_velocity timestep st cfg dr;
          p1 = add_ieee (st_p st) (ieee_scale v3 timestep)
      in (st\<lparr>st_p := finite_part p1, st_v := finite_part v3, st_a := finite_part a2\<rparr>,
          if return_urgency_vectors then Some (urgency_fields st cfg dr) else None))"

text \<open>\<^verbatim>\<open>_step_predators\<close>.\<close>

definition step_predators :: "real \<Rightarrow> State \<Rightarrow> draws \<Rightarrow> State" where
  "step_predators timestep st dr =
     (let pa = arr_mul (pred_a st) (gen_epsilon_matrix (eps_pred dr) (shape (pred_a st)));
          pv = arr_add (pred_v st) (arr_scale pa timestep);
          pp = arr_add (pred_p st) (arr_scale pv timestep)
      in st\<lparr>pred_p := pp, pred_v := pv, pred_a := pa\<rparr>)"

subsection \<open>Engine.run\<close>

text \<open>
  The loop \<^verbatim>\<open>for iteration in range(1, iterations + 1)\<close> over the engine's state, the
  list of recorded states and the list of recorded urgencies. The noise source is read as
  the draws of each iteration. The progress messages printed by the source are left out.
\<close>

fun run_loop ::
  "real \<Rightarrow> int \<Rightarrow> bool \<Rightarrow> Config \<Rightarrow> (int \<Rightarrow> draws) \<Rightarrow> int list
   \<Rightarrow> State \<times> State list \<times> urgency_field option list
   \<Rightarrow> State \<times> State list \<times> urgency_field option list" where
  "run_loop timestep skip_initial_states return_urgency_vectors cfg noise [] acc = acc"
| "run_loop timestep skip_initial_states return_urgency_vectors cfg noise (iteration # rest)
     (st, sts, urgency_vectors) =
     (let (st1, urgs) = step_particles timestep return_urgency_vectors st cfg (noise iteration);
          st2 = step_predators timestep st1 (noise iteration)
      in if iteration > skip_initial_states - 1
         then run_loop timestep skip_initial_states return_urgency_vectors cfg noise rest
                (st2, sts @ [st2],
                 if return_urgency_vectors then urgency_vectors @ [urgs] else urgency_vectors)
         else run_loop timestep skip_initial_states return_urgency_vectors cfg noise rest
                (st2, sts, urgency_vectors))"

text \<open>
  \<^verbatim>\<open>run\<close> returns the result; the engine, whose state the run has changed in place, is
  returned with it.
\<close>

definition run ::
  "real \<Rightarrow> int \<Rightarrow> int \<Rightarrow> bool \<Rightarrow> (int \<Rightarrow> draws) \<Rightarrow> Engine \<Rightarrow> EngineRunResult \<times> Engine" where
  "run timestep iterations skip_initial_states return_urgency_vectors noise eng =
     (let st0 = engine_state eng;
          (sts0, urgency_vectors0) =
            (if skip_initial_states > 0 then ([], [])
             else ([st0], [Some (replicate 3 (zeros (shape (st_p st0))))]));
          (st, sts, urgency_vectors) =
            run_loop timestep skip_initial_states return_urgency_vectors (engine_cfg eng) noise
              [1..iterations] (st0, sts0, urgency_vectors0)
      in (\<lparr>states = sts,
            urgencies = (if return_urgency_vectors then Some urgency_vectors else None)\<rparr>,
          eng\<lparr>engine_state := st\<rparr>))"

text \<open>The state of the engine after k iterations: one particle step, then one predator step, each.\<close>

fun state_after :: "real \<Rightarrow> Config \<Rightarrow> (int \<Rightarrow> draws) \<Rightarrow> State \<Rightarrow> nat \<Rightarrow> State" where
  "state_after timestep cfg noise st0 0 = st0"
| "state_after timestep cfg noise st0 (Suc k) =
     step_predators timestep
       (fst (step_particles timestep False (state_after timestep cfg noise st0 k) cfg
               (noise (int (Suc k)))))
       (noise (int (Suc k)))"

text \<open>
  The iterations among k + 1, ..., n whose state the loop records (its test
  \<^verbatim>\<open>iteration > (skip_initial_states - 1)\<close>), and what the particle step of iteration j
  returns.
\<close>

definition recorded :: "int \<Rightarrow> nat \<Rightarrow> nat \<Rightarrow> nat list" where
  "recorded skip_initial_states k n =
     filter (\<lambda>j. int j > skip_initial_states - 1) [Suc k..<Suc n]"

definition urgs_at ::
  "real \<Rightarrow> bool \<Rightarrow> Config \<Rightarrow> (int \<Rightarrow> draws) \<Rightarrow> State \<Rightarrow> nat \<Rightarrow> urgency_field option" where
  "urgs_at timestep return_urgency_vectors cfg noise st0 j =
     snd (step_particles timestep return_urgency_vectors
            (state_after timestep cfg noise st0 (j - 1)) cfg (noise (int j)))"



subsection \<open>Concrete inputs\<close>

text \<open>
  Two particles in the plane at (1, 0) and (10, 0), at rest, and one predator at (20, 0)
  with acceleration (1, 0); every range of the configuration is shorter than the distances
  between them, and every weight is 1.
\<close>

definition far_state :: State where
  "far_state =
     \<lparr>st_p = \<lparr>shape = (2, 2),
               elem = (\<lambda>i k. if k = 0 then (if i = 0 then 1 else 10) else 0)\<rparr>,
      st_v = zeros (2, 2),
      st_a = zeros (2, 2),
      pred_p = \<lparr>shape = (1, 2), elem = (\<lambda>i k. if k = 0 then 20 else 0)\<rparr>,
      pred_v = zeros (1, 2),
      pred_a = \<lparr>shape = (1, 2), elem = (\<lambda>i k. if k = 0 then 1 else 0)\<rparr>\<rparr>"

definition unit_cfg :: Config where
  "unit_cfg =
     \<lparr>v_max = 1, v_decay = 1, a_max = 1, d_max = 5, u_max = 1, u1_p = 1, u2_p = 1,
      u2_dopt = 1, u3_p = 1, u3_dmax = 1, uw = \<lparr>shape = (2, 3), elem = (\<lambda>i k. 1)\<rparr>\<rparr>"

definition far_engine :: Engine where
  "far_engine = \<lparr>engine_state = far_state, engine_cfg = unit_cfg\<rparr>"

text \<open>
  The same configuration with ranges that reach the other particle and the predator, and
  the same state with the predator moved onto the first particle.
\<close>

definition wide_cfg :: Config where
  "wide_cfg = unit_cfg\<lparr>d_max := 10, u2_dopt := 10, u3_dmax := 20\<rparr>"

definition caught_state :: State where
  "caught_state =
     far_state\<lparr>pred_p := \<lparr>shape = (1, 2), elem = (\<lambda>i k. if k = 0 then 1 else 0)\<rparr>\<rparr>"





text \<open>A noise source whose every factor is 11/10, at every draw.\<close>

definition tenth_draws :: draws where
  "tenth_draws =
     \<lparr>eps_u1 = (\<lambda>i k. 11 / 10), eps_u2 = (\<lambda>i k. 11 / 10), eps_u3 = (\<lambda>i k. 11 / 10),
      eps_a = (\<lambda>i k. 11 / 10), eps_pred = (\<lambda>i k. 11 / 10)\<rparr>"

section \<open>Engine construction\<close>

text \<open>
  C5. Engine construction raises the shape-mismatch error, which reports the four shapes
  of p, v, a and uw, exactly when the shape of p differs from that of v or of a, or the
  shape of uw is not (n, 3) for n the number of rows of p. When it raises there is no
  Engine; otherwise the Engine holds the state and the configuration as given, whatever
  the predator arrays and the values are: two constructions from arrays of the same four
  shapes raise alike.
\<close>

theorem Engine_init_raises_iff:
  "(isl (Engine_init st cfg) \<longleftrightarrow>
      (shape (st_p st) \<noteq> shape (st_v st) \<or> shape (st_p st) \<noteq> shape (st_a st)
       \<or> shape (uw cfg) \<noteq> (fst (shape (st_p st)), 3)))
   \<and> (isl (Engine_init st cfg) \<longrightarrow>
        Engine_init st cfg =
          Inl (ValueError (shape (st_p st)) (shape (st_v st)) (shape (st_a st)) (shape (uw cfg))))
   \<and> (\<not> isl (Engine_init st cfg) \<longrightarrow>
        Engine_init st cfg = Inr \<lparr>engine_state = st, engine_cfg = cfg\<rparr>)
   \<and> (shape (st_p st') = shape (st_p st) \<and> shape (st_v st') = shape (st_v st)
        \<and> shape (st_a st') = shape (st_a st) \<and> shape (uw cfg') = shape (uw cfg)
      \<longrightarrow> isl (Engine_init st' cfg') = isl (Engine_init st cfg))"
  by (simp add: Engine_init_def)

theorem Engine_init_raises_iff_witness:
  "\<not> isl (Engine_init far_state unit_cfg)
   \<and> Engine_init far_state unit_cfg = Inr \<lparr>engine_state = far_state, engine_cfg = unit_cfg\<rparr>
   \<and> isl (Engine_init (far_state\<lparr>st_v := zeros (3, 2)\<rparr>) unit_cfg)
   \<and> Engine_init (far_state\<lparr>st_v := zeros (3, 2)\<rparr>) unit_cfg =
       Inl (ValueError (2, 2) (3, 2) (2, 2) (2, 3))"
  using Engine_init_raises_iff [of far_state unit_cfg far_state unit_cfg]
    Engine_init_raises_iff [of "far_state\<lparr>st_v := zeros (3, 2)\<rparr>" unit_cfg far_state unit_cfg]
  by (simp add: far_state_def unit_cfg_def zeros_def)

section \<open>The run loop\<close>

text \<open>
  What the loop computes: the engine goes through the states \<open>state_after\<close>, and the
  recorded ones are those of the iterations listed by \<open>recorded\<close>.
\<close>

lemma fst_step_particles_ret:
  "fst (step_particles ts ret st cfg dr) = fst (step_particles ts False st cfg dr)"
  by (simp add: step_particles_def Let_def)

lemma recorded_step:
  "k < n \<Longrightarrow> recorded skip k n = (if int (Suc k) > skip - 1 then [Suc k] else []) @ recorded skip (Suc k) n"
  by (simp add: recorded_def upt_conv_Cons)

lemma run_loop_upto:
  "k \<le> n \<Longrightarrow>
   run_loop ts skip ret cfg noise [int k + 1..int n] (state_after ts cfg noise st0 k, sts, uvs) =
     (state_after ts cfg noise st0 n,
      sts @ map (state_after ts cfg noise st0) (recorded skip k n),
      uvs @ (if ret then map (urgs_at ts ret cfg noise st0) (recorded skip k n) else []))"
proof (induction "n - k" arbitrary: k sts uvs)
  case 0
  then have "k = n" by simp
  then show ?case by (simp add: recorded_def)
next
  case (Suc m)
  then have kn: "k < n" and m: "m = n - Suc k" and le: "Suc k \<le> n" by simp_all
  have up: "[int k + 1..int n] = (int k + 1) # [int (Suc k) + 1..int n]"
    using kn by (simp add: upto_rec1)
  have st: "step_predators ts (fst (step_particles ts ret (state_after ts cfg noise st0 k) cfg (noise (int k + 1)))) (noise (int k + 1))
      = state_after ts cfg noise st0 (Suc k)"
    by (simp add: fst_step_particles_ret [of ts ret] add.commute)
  have ug: "snd (step_particles ts ret (state_after ts cfg noise st0 k) cfg (noise (int k + 1)))
      = urgs_at ts ret cfg noise st0 (Suc k)"
    by (simp add: urgs_at_def add.commute)
  show ?case
    unfolding up
    using Suc.hyps(1) [OF m le] st ug
    by (simp add: recorded_step [OF kn] case_prod_beta Let_def del: state_after.simps)
qed


lemma upto_nat_iterations: "[1..iterations] = [int 0 + 1..int (nat iterations)]"
  by (cases "0 \<le> iterations") simp_all

lemma run_eq:
  "run ts iterations skip ret noise eng =
     (\<lparr>states = (if skip > 0 then [] else [engine_state eng])
                 @ map (state_after ts (engine_cfg eng) noise (engine_state eng))
                     (recorded skip 0 (nat iterations)),
       urgencies =
         (if ret
          then Some ((if skip > 0 then []
                      else [Some (replicate 3 (zeros (shape (st_p (engine_state eng)))))])
                     @ map (urgs_at ts ret (engine_cfg eng) noise (engine_state eng))
                         (recorded skip 0 (nat iterations)))
          else None)\<rparr>,
      eng\<lparr>engine_state := state_after ts (engine_cfg eng) noise (engine_state eng) (nat iterations)\<rparr>)"
proof -
  have loop: "run_loop ts skip ret (engine_cfg eng) noise [1..iterations] (engine_state eng, sts, uvs) =
     (state_after ts (engine_cfg eng) noise (engine_state eng) (nat iterations),
      sts @ map (state_after ts (engine_cfg eng) noise (engine_state eng)) (recorded skip 0 (nat iterations)),
      uvs @ (if ret then map (urgs_at ts ret (engine_cfg eng) noise (engine_state eng)) (recorded skip 0 (nat iterations)) else []))"
    for sts uvs
    using run_loop_upto [of 0 "nat iterations" ts skip ret "engine_cfg eng" noise "engine_state eng" sts uvs]
    unfolding upto_nat_iterations [of iterations] by simp
  show ?thesis
    using loop [of "[]" "[]"]
      loop [of "[engine_state eng]" "[Some (replicate 3 (zeros (shape (st_p (engine_state eng)))))]"]
    by (cases ret) (simp_all add: run_def Let_def)
qed

lemma recorded_skip_pos: "0 < skip \<Longrightarrow> recorded skip 0 n = [nat skip..<Suc n]"
proof (induction n)
  case 0
  then show ?case by (simp add: recorded_def)
next
  case (Suc n)
  have "recorded skip 0 (Suc n) = recorded skip 0 n @ (if int (Suc n) > skip - 1 then [Suc n] else [])"
    by (simp add: recorded_def)
  also have "\<dots> = [nat skip..<Suc (Suc n)]"
    using Suc by (auto simp: upt_Suc_append not_less) 
  finally show ?case .
qed

lemma recorded_skip_nonpos: "skip \<le> 0 \<Longrightarrow> recorded skip 0 n = [1..<Suc n]"
  unfolding recorded_def by (rule filter_True [THEN trans]) auto


text \<open>
  C3. For skip_initial_states between 0 and iterations, the states list of the result has
  length iterations + 1 when skip_initial_states is 0 and iterations - skip_initial_states
  + 1 otherwise. A run of 5 iterations with skip_initial_states = 5 records exactly one
  state, the state after the 5th step; the initial state is not recorded.
\<close>

theorem run_states_length:
  assumes "0 \<le> skip_initial_states" and "skip_initial_states \<le> iterations"
  shows "int (length (states (fst (run timestep iterations skip_initial_states ret noise eng)))) =
           (if skip_initial_states = 0 then iterations + 1
            else iterations - skip_initial_states + 1)
         \<and> states (fst (run timestep 5 5 ret noise eng)) =
             [state_after timestep (engine_cfg eng) noise (engine_state eng) 5]"
proof -
  have five: "recorded 5 0 5 = [5]"
    by (simp add: recorded_skip_pos)
  have len: "int (length (states (fst (run timestep iterations skip_initial_states ret noise eng)))) =
           (if skip_initial_states = 0 then iterations + 1
            else iterations - skip_initial_states + 1)"
  proof (cases "skip_initial_states = 0")
    case True
    with assms show ?thesis
      by (auto simp: run_eq recorded_skip_nonpos)
  next
    case False
    with assms have "0 < skip_initial_states" by simp
    with assms show ?thesis
      by (auto simp: run_eq recorded_skip_pos)
  qed
  show ?thesis
    using len five by (simp add: run_eq)
qed

theorem run_states_length_witness:
  "(0::int) \<le> 2 \<and> (2::int) \<le> 3
   \<and> int (length (states (fst (run 1 3 2 False (\<lambda>it. identity_draws) far_engine)))) = 2
   \<and> states (fst (run 1 5 5 False (\<lambda>it. identity_draws) far_engine)) =
       [state_after 1 (engine_cfg far_engine) (\<lambda>it. identity_draws) (engine_state far_engine) 5]"
  using run_states_length [of 2 3 1 False "\<lambda>it. identity_draws" far_engine]
  by simp

text \<open>
  C10. The run does not check that skip_initial_states is at most iterations. For a
  positive skip_initial_states larger than iterations the run returns (it has no error
  branch), the states list is empty, the urgencies list is empty when it was asked for,
  and the engine has gone through exactly iterations steps.
\<close>

theorem run_skip_beyond_iterations:
  assumes "0 < skip_initial_states" and "iterations < skip_initial_states"
  shows "states (fst (run timestep iterations skip_initial_states ret noise eng)) = []
         \<and> urgencies (fst (run timestep iterations skip_initial_states ret noise eng)) =
             (if ret then Some [] else None)
         \<and> engine_state (snd (run timestep iterations skip_initial_states ret noise eng)) =
             state_after timestep (engine_cfg eng) noise (engine_state eng) (nat iterations)"
proof -
  have "recorded skip_initial_states 0 (nat iterations) = []"
    using assms by (simp add: recorded_skip_pos)
  then show ?thesis
    using assms by (simp add: run_eq)
qed

theorem run_skip_beyond_iterations_witness:
  "(0::int) < 3 \<and> (2::int) < 3
   \<and> states (fst (run 1 2 3 True (\<lambda>it. identity_draws) far_engine)) = []
   \<and> urgencies (fst (run 1 2 3 True (\<lambda>it. identity_draws) far_engine)) = Some []
   \<and> engine_state (snd (run 1 2 3 True (\<lambda>it. identity_draws) far_engine)) =
       state_after 1 (engine_cfg far_engine) (\<lambda>it. identity_draws) (engine_state far_engine) (nat 2)"
  using run_skip_beyond_iterations [of 3 2 1 True "\<lambda>it. identity_draws" far_engine]
  by simp


section \<open>The urgencies\<close>

lemma squareform_pdist_diag: "squareform_pdist X i i = 0"
  by (simp add: squareform_pdist_def)

lemma weights2_row_zero:
  assumes "\<forall>j<n. j \<noteq> i \<longrightarrow> \<not> (0 < squareform_pdist X i j \<and> squareform_pdist X i j \<le> u2_dopt cfg)"
    and "j < n"
  shows "weights2 cfg (squareform_pdist X) i j = 0"
proof (cases "j = i")
  case True
  then show ?thesis by (simp add: weights2_def in_range2_def squareform_pdist_diag)
next
  case False
  with assms show ?thesis by (auto simp: weights2_def in_range2_def)
qed

lemma weights3_row_zero:
  assumes "\<forall>j<m. \<not> (0 < distances_from_predators st i j \<and> distances_from_predators st i j \<le> u3_dmax cfg)"
    and "j < m"
  shows "weights3 st cfg i j = 0"
  using assms by (auto simp: weights3_def in_range3_def)

lemma urgency_fields_eq:
  "urgency_fields st cfg dr =
     [calculate_urgency1 st cfg (squareform_pdist (st_p st)) (eps_u1 dr),
      calculate_urgency2 st cfg (squareform_pdist (st_p st)) (eps_u2 dr),
      calculate_urgency3 st cfg (eps_u3 dr)]"
  by (simp add: urgency_fields_def Let_def)

lemma far_state_distance: "squareform_pdist (st_p far_state) 0 (Suc 0) = 9"
  by (simp add: squareform_pdist_def euclidean_def far_state_def lessThan_Suc numeral_2_eq_2)

lemma far_state_predator_distance: "distances_from_predators far_state 0 0 = 19"
  by (simp add: distances_from_predators_def cdist_def euclidean_def far_state_def lessThan_Suc numeral_2_eq_2)

lemma count_nonzero_pos: "j < n \<Longrightarrow> msk i j \<Longrightarrow> 0 < count_nonzero n msk i"
  by (auto simp: count_nonzero_def filter_empty_conv)

lemma caught_state_predator_distance: "distances_from_predators caught_state 0 0 = 0"
  by (simp add: distances_from_predators_def cdist_def euclidean_def caught_state_def
      far_state_def lessThan_Suc numeral_2_eq_2)

text \<open>
  C9. A particle i with no other particle at a distance in (0, u2_dopt] has the zero vector
  as its urgency 2, and a particle i with no predator at a distance in (0, u3_dmax] has the
  zero vector as its urgency 3, in the urgencies that a particle step computes.
\<close>

theorem isolated_urgency2_urgency3_zero:
  "((\<forall>j<fst (shape (st_p st)). j \<noteq> i \<longrightarrow>
        \<not> (0 < squareform_pdist (st_p st) i j \<and> squareform_pdist (st_p st) i j \<le> u2_dopt cfg))
    \<longrightarrow> (\<forall>k. elem (urgency_fields st cfg dr ! 1) i k = 0))
   \<and> ((\<forall>j<fst (shape (pred_p st)).
        \<not> (0 < distances_from_predators st i j \<and> distances_from_predators st i j \<le> u3_dmax cfg))
    \<longrightarrow> (\<forall>k. elem (urgency_fields st cfg dr ! 2) i k = 0))"
proof (intro conjI impI allI)
  fix k
  assume h: "\<forall>j<fst (shape (st_p st)). j \<noteq> i \<longrightarrow>
        \<not> (0 < squareform_pdist (st_p st) i j \<and> squareform_pdist (st_p st) i j \<le> u2_dopt cfg)"
  have "(\<Sum>j<fst (shape (st_p st)).
          weights2 cfg (squareform_pdist (st_p st)) i j * (elem (st_p st) i k - elem (st_p st) j k)) = 0"
    by (rule sum.neutral) (simp add: weights2_row_zero [OF h])
  then show "elem (urgency_fields st cfg dr ! 1) i k = 0"
    by (simp add: urgency_fields_eq calculate_urgency2_def)
next
  fix k
  assume h: "\<forall>j<fst (shape (pred_p st)).
        \<not> (0 < distances_from_predators st i j \<and> distances_from_predators st i j \<le> u3_dmax cfg)"
  have "(\<Sum>j<fst (shape (pred_p st)).
          weights3 st cfg i j * (elem (st_p st) i k - elem (pred_p st) j k)) = 0"
    by (rule sum.neutral) (simp add: weights3_row_zero [OF h])
  then show "elem (urgency_fields st cfg dr ! 2) i k = 0"
    by (simp add: urgency_fields_eq calculate_urgency3_def)
qed

theorem isolated_urgency2_urgency3_zero_witness:
  "fst (shape (st_p far_state)) = 2
   \<and> \<not> (0 < squareform_pdist (st_p far_state) 0 (Suc 0)
         \<and> squareform_pdist (st_p far_state) 0 (Suc 0) \<le> u2_dopt unit_cfg)
   \<and> (\<forall>k. elem (urgency_fields far_state unit_cfg identity_draws ! 1) 0 k = 0)
   \<and> fst (shape (pred_p far_state)) = 1
   \<and> \<not> (0 < distances_from_predators far_state 0 0
         \<and> distances_from_predators far_state 0 0 \<le> u3_dmax unit_cfg)
   \<and> (\<forall>k. elem (urgency_fields far_state unit_cfg identity_draws ! 2) 0 k = 0)"
proof -
  have n: "fst (shape (st_p far_state)) = 2" and m: "fst (shape (pred_p far_state)) = 1"
    by (simp_all add: far_state_def)
  have d2: "\<not> (0 < squareform_pdist (st_p far_state) 0 (Suc 0)
         \<and> squareform_pdist (st_p far_state) 0 (Suc 0) \<le> u2_dopt unit_cfg)"
    by (simp add: far_state_distance unit_cfg_def)
  have d3: "\<not> (0 < distances_from_predators far_state 0 0
         \<and> distances_from_predators far_state 0 0 \<le> u3_dmax unit_cfg)"
    by (simp add: far_state_predator_distance unit_cfg_def)
  have h2: "\<forall>j<fst (shape (st_p far_state)). j \<noteq> 0 \<longrightarrow>
        \<not> (0 < squareform_pdist (st_p far_state) 0 j
           \<and> squareform_pdist (st_p far_state) 0 j \<le> u2_dopt unit_cfg)"
    unfolding n using d2 by (auto simp: less_2_cases_iff)
  have h3: "\<forall>j<fst (shape (pred_p far_state)).
        \<not> (0 < distances_from_predators far_state 0 j
           \<and> distances_from_predators far_state 0 j \<le> u3_dmax unit_cfg)"
    unfolding m using d3 by simp
  show ?thesis
    using n m d2 d3 h2 h3 isolated_urgency2_urgency3_zero [of far_state 0 unit_cfg identity_draws]
    by blast
qed

text \<open>
  C8. In each of the three urgencies a pair at distance 0 is outside the range mask and its
  weight is 0; the diagonal of the distance matrix of the particles is 0, so this holds
  for the self-terms. The division that gives a weight is carried out only where the mask
  is on, and there its divisor is not zero.
\<close>

theorem zero_distance_pairs_masked:
  "(distances i j = 0 \<longrightarrow>
      \<not> in_range1 cfg distances i j \<and> weights1 n cfg distances i j = 0)
   \<and> (distances i j = 0 \<longrightarrow>
      \<not> in_range2 cfg distances i j \<and> weights2 cfg distances i j = 0)
   \<and> (distances_from_predators st i j = 0 \<longrightarrow>
      \<not> in_range3 st cfg i j \<and> weights3 st cfg i j = 0)
   \<and> squareform_pdist X i i = 0
   \<and> (j < n \<and> in_range1 cfg distances i j \<longrightarrow>
      real (count_nonzero n (in_range1 cfg distances) i) \<noteq> 0)
   \<and> (in_range2 cfg distances i j \<longrightarrow> u2_dopt cfg * distances i j \<noteq> 0)
   \<and> (in_range3 st cfg i j \<longrightarrow> u3_dmax cfg * distances_from_predators st i j \<noteq> 0)"
proof (intro conjI impI)
  assume "j < n \<and> in_range1 cfg distances i j"
  then have "0 < count_nonzero n (in_range1 cfg distances) i"
    using count_nonzero_pos [of j n "in_range1 cfg distances" i] by simp
  then show "real (count_nonzero n (in_range1 cfg distances) i) \<noteq> 0"
    by simp
next
  assume "in_range2 cfg distances i j"
  then show "u2_dopt cfg * distances i j \<noteq> 0"
    by (auto simp: in_range2_def)
next
  assume "in_range3 st cfg i j"
  then show "u3_dmax cfg * distances_from_predators st i j \<noteq> 0"
    by (auto simp: in_range3_def)
qed (simp_all add: in_range1_def in_range2_def in_range3_def weights1_def weights2_def
       weights3_def squareform_pdist_def)

theorem zero_distance_pairs_masked_witness:
  "squareform_pdist (st_p far_state) 0 0 = 0
   \<and> \<not> in_range1 wide_cfg (squareform_pdist (st_p far_state)) 0 0
   \<and> weights1 2 wide_cfg (squareform_pdist (st_p far_state)) 0 0 = 0
   \<and> \<not> in_range2 wide_cfg (squareform_pdist (st_p far_state)) 0 0
   \<and> weights2 wide_cfg (squareform_pdist (st_p far_state)) 0 0 = 0
   \<and> distances_from_predators caught_state 0 0 = 0
   \<and> \<not> in_range3 caught_state wide_cfg 0 0
   \<and> weights3 caught_state wide_cfg 0 0 = 0
   \<and> (Suc 0 < 2 \<and> in_range1 wide_cfg (squareform_pdist (st_p far_state)) 0 (Suc 0))
   \<and> real (count_nonzero 2 (in_range1 wide_cfg (squareform_pdist (st_p far_state))) 0) \<noteq> 0
   \<and> in_range2 wide_cfg (squareform_pdist (st_p far_state)) 0 (Suc 0)
   \<and> u2_dopt wide_cfg * squareform_pdist (st_p far_state) 0 (Suc 0) \<noteq> 0
   \<and> in_range3 far_state wide_cfg 0 0
   \<and> u3_dmax wide_cfg * distances_from_predators far_state 0 0 \<noteq> 0"
proof -
  have r1: "in_range1 wide_cfg (squareform_pdist (st_p far_state)) 0 (Suc 0)"
    and r2: "in_range2 wide_cfg (squareform_pdist (st_p far_state)) 0 (Suc 0)"
    and r3: "in_range3 far_state wide_cfg 0 0"
    by (simp_all add: in_range1_def in_range2_def in_range3_def far_state_distance
        far_state_predator_distance wide_cfg_def unit_cfg_def)
  show ?thesis
    using r1 r2 r3 caught_state_predator_distance
      zero_distance_pairs_masked [of "squareform_pdist (st_p far_state)" 0 0 wide_cfg 2
        caught_state "st_p far_state"]
      zero_distance_pairs_masked [of "squareform_pdist (st_p far_state)" 0 "Suc 0" wide_cfg 2
        far_state "st_p far_state"]
      zero_distance_pairs_masked [of "squareform_pdist (st_p far_state)" 0 0 wide_cfg 2
        far_state "st_p far_state"]
    by simp
qed

text \<open>
  The urgency 1 of a particle with no other particle in range: all its weights are 0, its
  baricenter is the origin, and the urgency is the pull from its position to the origin.
\<close>

lemma isolated_urgency1:
  assumes "\<forall>j<fst (shape (st_p st)). j \<noteq> i \<longrightarrow>
      \<not> (0 < squareform_pdist (st_p st) i j \<and> squareform_pdist (st_p st) i j \<le> d_max cfg)"
  shows "elem (urgency_fields st cfg dr ! 0) i k =
           (0 - elem (st_p st) i k) * eps_u1 dr i k * u1_p cfg * elem (uw cfg) i 0"
proof -
  have w: "weights1 n cfg (squareform_pdist (st_p st)) i j = 0" if "j < fst (shape (st_p st))" for j n
  proof (cases "j = i")
    case True
    then show ?thesis by (simp add: weights1_def in_range1_def squareform_pdist_diag)
  next
    case False
    with assms that show ?thesis by (auto simp: weights1_def in_range1_def)
  qed
  have "baricenters st cfg (squareform_pdist (st_p st)) i k = 0"
    unfolding baricenters_def by (rule sum.neutral) (simp add: w)
  then show ?thesis
    by (simp add: urgency_fields_eq calculate_urgency1_def gen_epsilon_matrix_def)
qed

text \<open>
  C1. The claim is that a particle with no other particle at a distance in (0, d_max] has
  the zero vector as its urgency 1. With particles at (1, 0) and (10, 0), d_max = 5 and
  every other factor 1, the first particle has nobody in range and the first component of
  its urgency 1 is -1.
\<close>

theorem isolated_urgency1_not_zero:
  "\<not> (0 < squareform_pdist (st_p far_state) 0 (Suc 0)
       \<and> squareform_pdist (st_p far_state) 0 (Suc 0) \<le> d_max unit_cfg)
   \<and> elem (urgency_fields far_state unit_cfg identity_draws ! 0) 0 0 = - 1"
proof -
  have n: "fst (shape (st_p far_state)) = 2"
    by (simp add: far_state_def)
  have h: "\<forall>j<fst (shape (st_p far_state)). j \<noteq> 0 \<longrightarrow>
        \<not> (0 < squareform_pdist (st_p far_state) 0 j
           \<and> squareform_pdist (st_p far_state) 0 j \<le> d_max unit_cfg)"
    unfolding n using far_state_distance by (auto simp: less_2_cases_iff unit_cfg_def)
  have "elem (urgency_fields far_state unit_cfg identity_draws ! 0) 0 0 = - 1"
    unfolding isolated_urgency1 [OF h]
    by (simp add: far_state_def unit_cfg_def identity_draws_def)
  then show ?thesis
    using far_state_distance by (simp add: unit_cfg_def)
qed


section \<open>The particle step\<close>
























section \<open>The predator step\<close>

text \<open>
  The predator acceleration of one iteration is that of the iteration before, times the
  noise that the iteration draws: the particle step leaves it alone, and the predator step
  multiplies it in place.
\<close>

lemma step_particles_predators:
  "pred_p (fst (step_particles timestep ret st cfg dr)) = pred_p st"
  "pred_v (fst (step_particles timestep ret st cfg dr)) = pred_v st"
  "pred_a (fst (step_particles timestep ret st cfg dr)) = pred_a st"
  by (simp_all add: step_particles_def Let_def)

lemma step_predators_pred_a:
  "elem (pred_a (step_predators timestep st dr)) i k = elem (pred_a st) i k * eps_pred dr i k"
  by (simp add: step_predators_def Let_def arr_mul_def gen_epsilon_matrix_def)

lemma state_after_pred_a:
  "elem (pred_a (state_after timestep cfg noise st0 (Suc n))) i k =
     elem (pred_a (state_after timestep cfg noise st0 n)) i k * eps_pred (noise (int (Suc n))) i k"
  by (simp add: step_predators_pred_a step_particles_predators)

lemma state_after_pred_a_prod:
  "elem (pred_a (state_after timestep cfg noise st0 n)) i k =
     elem (pred_a st0) i k * (\<Prod>j = 1..n. eps_pred (noise (int j)) i k)"
proof (induction n)
  case 0
  show ?case by simp
next
  case (Suc n)
  show ?case
    unfolding state_after_pred_a Suc.IH by (simp add: mult.assoc)
qed

text \<open>
  C2. The claim is that the predator acceleration of every step is the initial one times
  the noise of that step alone. With the initial component 1 and the noise factor 11/10 at
  every draw, the component is 11/10 in the first step and 121/100 in the second, the
  product of both draws; the state recorded at index 2 of a run of two iterations is that
  state.
\<close>

theorem predator_noise_accumulates:
  "elem (pred_a far_state) 0 0 = 1
   \<and> eps_pred tenth_draws 0 0 = 11 / 10
   \<and> elem (pred_a (state_after 1 unit_cfg (\<lambda>it. tenth_draws) far_state 1)) 0 0 = 11 / 10
   \<and> elem (pred_a (state_after 1 unit_cfg (\<lambda>it. tenth_draws) far_state 2)) 0 0 = 121 / 100
   \<and> states (fst (run 1 2 0 False (\<lambda>it. tenth_draws) far_engine)) ! 2 =
       state_after 1 unit_cfg (\<lambda>it. tenth_draws) far_state 2"
proof -
  have a0: "elem (pred_a far_state) 0 0 = 1"
    by (simp add: far_state_def)
  have e: "eps_pred tenth_draws 0 0 = 11 / 10"
    by (simp add: tenth_draws_def)
  have a1: "elem (pred_a (state_after 1 unit_cfg (\<lambda>it. tenth_draws) far_state (Suc 0))) 0 0 = 11 / 10"
    unfolding state_after_pred_a by (simp add: a0 e)
  have a2: "elem (pred_a (state_after 1 unit_cfg (\<lambda>it. tenth_draws) far_state (Suc (Suc 0)))) 0 0 = 121 / 100"
    unfolding state_after_pred_a [of _ _ _ _ "Suc 0"] a1 by (simp add: e)
  have r: "recorded 0 0 2 = [1, 2]"
    by (simp add: recorded_skip_nonpos upt_rec)
  have "states (fst (run 1 2 0 False (\<lambda>it. tenth_draws) far_engine)) ! 2 =
       state_after 1 unit_cfg (\<lambda>it. tenth_draws) far_state 2"
    by (simp add: run_eq r far_engine_def del: state_after.simps)
  with a0 e a1 a2 show ?thesis
    by (simp add: numeral_2_eq_2)
qed



section \<open>Recorded urgencies and recorded accelerations\<close>










end
